theory Spec2Isabelle
  imports Main
begin

section \<open>Strings\<close>

text \<open>
  A JavaScript string is a sequence of code units; it is modelled as a \<open>string\<close>, one
  \<open>char\<close> per code unit, so \<open>length\<close> is the source's \<open>.length\<close>. The code units that
  \<open>String.prototype.trim\<close> strips and that the regular expression class \<open>\s\<close> matches
  are the same set (WhiteSpace and LineTerminator); of these, the ones a \<open>char\<close> can hold
  are TAB, LF, VT, FF, CR, SPACE and NBSP.
\<close>

definition is_space :: "char \<Rightarrow> bool" where
  "is_space c = (c \<in> set [CHR 0x09, CHR 0x0A, CHR 0x0B, CHR 0x0C, CHR 0x0D, CHR 0x20, CHR 0xA0])"

text \<open>\<open>s.trim()\<close>: white space removed at both ends.\<close>

definition trim :: "string \<Rightarrow> string" where
  "trim s = rev (dropWhile is_space (rev (dropWhile is_space s)))"

text \<open>
  \<open>s.split(/\s+/)\<close>. The pattern matches a maximal, non-empty run of white space and
  never the empty string, so the result is the pieces between the runs: an empty
  string gives one empty piece, and a string that starts or ends with white space
  gives an empty first or last piece. \<open>split_ws_from acc s\<close> scans \<open>s\<close> with the
  piece read so far in \<open>acc\<close>.
\<close>

function split_ws_from :: "string \<Rightarrow> string \<Rightarrow> string list" where
  "split_ws_from acc [] = [acc]"
| "split_ws_from acc (c # cs) =
     (if is_space c then acc # split_ws_from [] (dropWhile is_space cs)
      else split_ws_from (acc @ [c]) cs)"
  by pat_completeness auto
termination
  by (relation "measure (\<lambda>(acc, s). length s)")
     (auto simp: length_dropWhile_le less_Suc_eq_le)

definition split_ws :: "string \<Rightarrow> string list" where
  "split_ws s = split_ws_from [] s"

text \<open>\<open>s.split(',')\<close>: the pieces between the separators, always at least one piece.\<close>

fun split_on :: "char \<Rightarrow> string \<Rightarrow> string \<Rightarrow> string list" where
  "split_on sep acc [] = [acc]"
| "split_on sep acc (c # cs) =
     (if c = sep then acc # split_on sep [] cs else split_on sep (acc @ [c]) cs)"

text \<open>\<open>xs[i]\<close> on an array: \<open>undefined\<close> (here \<open>None\<close>) out of range.\<close>

definition js_index :: "'a list \<Rightarrow> nat \<Rightarrow> 'a option" where
  "js_index xs i = (if i < length xs then Some (xs ! i) else None)"

text \<open>Truthiness of a string, and of an optional string: empty and absent are falsy.\<close>

definition truthy :: "string \<Rightarrow> bool" where
  "truthy s = (s \<noteq> [])"

definition truthy_opt :: "string option \<Rightarrow> bool" where
  "truthy_opt v = (case v of None \<Rightarrow> False | Some s \<Rightarrow> truthy s)"

text \<open>\<open>s.startsWith(p)\<close>.\<close>

definition startsWith :: "string \<Rightarrow> string \<Rightarrow> bool" where
  "startsWith s p = (take (length p) s = p)"

text \<open>The decimal digits of a number, as a template literal prints it.\<close>

function decimal :: "nat \<Rightarrow> string" where
  "decimal n =
     (if n < 10 then [''0123456789'' ! n] else decimal (n div 10) @ [''0123456789'' ! (n mod 10)])"
  by pat_completeness auto
termination
  by (relation "measure (\<lambda>n. n)") auto

declare decimal.simps [simp del]

section \<open>Data model (models.ts)\<close>

datatype Role = User | Ai

record FileMetadata =
  fm_name :: string
  fm_size :: nat
  fm_type :: string
  wordCount :: nat
  charCount :: nat
  base64Content :: "string option"
  pageCount :: "nat option"

record ChatMessage =
  msg_role :: Role
  msg_text :: string
  fileInfo :: "FileMetadata option"

record ChatSession =
  session_id :: string
  title :: string
  messages :: "ChatMessage list"
  createdAt :: nat

text \<open>The request payload of the model API: a turn is a role and its parts.\<close>

datatype Part = TextPart string | InlineData string string

record Content =
  content_role :: string
  parts :: "Part list"

section \<open>Conversation history (buildHistory)\<close>

text \<open>
  \<open>messages.slice(0, -2)\<close>: the end index is \<open>max (length - 2) 0\<close>, which is the
  truncating subtraction of \<open>nat\<close>.
\<close>

definition slice_to_minus2 :: "'a list \<Rightarrow> 'a list" where
  "slice_to_minus2 xs = take (length xs - 2) xs"

text \<open>
  The body of the \<open>map\<close> callback: the text part first, then the inline file part is
  put in front of it (\<open>unshift\<close>) when the message is a user message whose file
  information has truthy base64 content.
\<close>

definition historyParts :: "ChatMessage \<Rightarrow> Part list" where
  "historyParts msg =
     (let ps = [TextPart (msg_text msg)] in
      case fileInfo msg of
        None \<Rightarrow> ps
      | Some fi \<Rightarrow>
          (case base64Content fi of
             None \<Rightarrow> ps
           | Some d \<Rightarrow>
               if msg_role msg = User \<and> truthy d then InlineData (fm_type fi) d # ps else ps))"

definition historyTurn :: "ChatMessage \<Rightarrow> Content" where
  "historyTurn msg =
     \<lparr>content_role = (if msg_role msg = Ai then ''model'' else ''user''),
      parts = historyParts msg\<rparr>"

definition buildHistory :: "ChatMessage list \<Rightarrow> Content list" where
  "buildHistory msgs = map historyTurn (slice_to_minus2 msgs)"

section \<open>Application state (AppComponent)\<close>

text \<open>
  A browser \<open>File\<close>, with what its readers deliver: \<open>readAsDataURL\<close> is the result
  string of the \<open>FileReader\<close> (\<open>None\<close> when the reader fires \<open>onerror\<close>),
  \<open>file_text\<close> is what \<open>file.text()\<close> resolves to (\<open>None\<close> when it rejects), and
  \<open>numPages\<close> is the page count the PDF library reports (\<open>None\<close> when reading or
  parsing the document throws).
\<close>

record File =
  file_name :: string
  file_size :: nat
  file_type :: string
  readAsDataURL :: "string option"
  file_text :: "string option"
  numPages :: "nat option"

text \<open>The signals of the component. \<open>Date\<close> values are milliseconds.\<close>

record AppState =
  chatSessions :: "ChatSession list"
  activeSessionId :: "string option"
  isLoading :: bool
  currentPrompt :: string
  attachedFile :: "File option"
  fileMetadata :: "FileMetadata option"
  error :: "string option"

definition initialState :: AppState where
  "initialState =
     \<lparr>chatSessions = [], activeSessionId = None, isLoading = False, currentPrompt = [],
      attachedFile = None, fileMetadata = None, error = None\<rparr>"

text \<open>The computed signal: no id, or an empty one, gives no session.\<close>

definition activeSession :: "AppState \<Rightarrow> ChatSession option" where
  "activeSession st =
     (case activeSessionId st of
        None \<Rightarrow> None
      | Some i \<Rightarrow> if \<not> truthy i then None else find (\<lambda>s. session_id s = i) (chatSessions st))"

definition removeAttachment :: "AppState \<Rightarrow> AppState" where
  "removeAttachment st = st\<lparr>attachedFile := None, fileMetadata := None\<rparr>"

definition resetInput :: "AppState \<Rightarrow> AppState" where
  "resetInput st = removeAttachment (st\<lparr>currentPrompt := []\<rparr>)"

text \<open>
  \<open>startNewChat\<close> reads the clock twice: \<open>Date.now()\<close> for the id and \<open>new Date()\<close>
  for the creation time. \<open>now\<close> holds the two readings.
\<close>

record Clock =
  date_now :: nat
  new_date :: nat

definition startNewChat :: "Clock \<Rightarrow> AppState \<Rightarrow> AppState" where
  "startNewChat now st =
     (let newSession =
            \<lparr>session_id = ''chat_'' @ decimal (date_now now), title = ''New Conversation'',
             messages = [], createdAt = new_date now\<rparr>
      in resetInput
           (st\<lparr>chatSessions := newSession # chatSessions st,
               activeSessionId := Some (session_id newSession)\<rparr>))"

definition selectChat :: "string \<Rightarrow> AppState \<Rightarrow> AppState" where
  "selectChat i st = st\<lparr>activeSessionId := Some i\<rparr>"

definition deleteChat :: "string \<Rightarrow> AppState \<Rightarrow> AppState" where
  "deleteChat i st =
     (let st1 = st\<lparr>chatSessions := filter (\<lambda>session. session_id session \<noteq> i) (chatSessions st)\<rparr>
      in if activeSessionId st1 = Some i
         then st1\<lparr>activeSessionId := map_option session_id (js_index (chatSessions st1) 0)\<rparr>
         else st1)"

section \<open>File attachment (handleFileChange, processFile)\<close>

definition MAX_FILE_SIZE :: nat where
  "MAX_FILE_SIZE = 5 * 1024 * 1024"

text \<open>How an asynchronous method ends; the state it has written by then stays written.\<close>

datatype Completion = Fulfilled | Rejected

text \<open>
  \<open>fileToBase64\<close>: the part of the data URL after its first comma; the promise
  rejects (\<open>None\<close>) when the reader fails.
\<close>

definition fileToBase64 :: "File \<Rightarrow> string option option" where
  "fileToBase64 file =
     (case readAsDataURL file of
        None \<Rightarrow> None
      | Some result \<Rightarrow> Some (js_index (split_on CHR '','' [] result) 1))"

definition countWords :: "string \<Rightarrow> nat" where
  "countWords textContent = length (filter truthy (split_ws (trim textContent)))"

definition processFile :: "File \<Rightarrow> AppState \<Rightarrow> Completion \<times> AppState" where
  "processFile file st =
     (case fileToBase64 file of
        None \<Rightarrow> (Rejected, st)
      | Some base64 \<Rightarrow>
          (let meta = \<lparr>fm_name = file_name file, fm_size = file_size file,
                       fm_type = file_type file, wordCount = 0, charCount = 0,
                       base64Content = base64, pageCount = None\<rparr>
           in if startsWith (file_type file) ''text/'' then
                (case file_text file of
                   None \<Rightarrow> (Rejected, st)
                 | Some textContent \<Rightarrow>
                     (Fulfilled,
                      st\<lparr>fileMetadata :=
                           Some (meta\<lparr>wordCount := countWords textContent,
                                      charCount := length textContent\<rparr>)\<rparr>))
              else if file_type file = ''application/pdf'' then
                (case numPages file of
                   None \<Rightarrow>
                     (Fulfilled,
                      st\<lparr>error := Some ''Could not read page count from the PDF file.'',
                         fileMetadata := Some meta\<rparr>)
                 | Some n \<Rightarrow> (Fulfilled, st\<lparr>fileMetadata := Some (meta\<lparr>pageCount := Some n\<rparr>)\<rparr>))
              else (Fulfilled, st\<lparr>fileMetadata := Some meta\<rparr>)))"

text \<open>
  \<open>handleFileChange\<close>; \<open>files\<close> is \<open>input.files\<close> of the event's target. Resetting
  the value of the input element touches no signal and is left out.
\<close>

definition handleFileChange :: "File list \<Rightarrow> AppState \<Rightarrow> Completion \<times> AppState" where
  "handleFileChange files st =
     (case files of
        [] \<Rightarrow> (Fulfilled, st)
      | file # _ \<Rightarrow>
          if file_size file > MAX_FILE_SIZE then
            (Fulfilled,
             st\<lparr>error := Some (''File is too large. Max size is ''
                                @ decimal (MAX_FILE_SIZE div 1024 div 1024) @ ''MB.''),
                attachedFile := None\<rparr>)
          else processFile file (st\<lparr>attachedFile := Some file, error := None\<rparr>))"

section \<open>Sending a message (sendMessage, GeminiService)\<close>

text \<open>
  The contents \<open>GeminiService.generateContentStream\<close> hands to the vendor SDK: the
  history and the new user turn, its file part in front of its text part.
\<close>

definition requestContents :: "Content list \<Rightarrow> string \<Rightarrow> FileMetadata option \<Rightarrow> Content list" where
  "requestContents history prompt file =
     (let ps = [TextPart prompt];
          ps' = (case file of
                   None \<Rightarrow> ps
                 | Some f \<Rightarrow>
                     (case base64Content f of
                        None \<Rightarrow> ps
                      | Some d \<Rightarrow> if truthy d then InlineData (fm_type f) d # ps else ps))
      in history @ [\<lparr>content_role = ''user'', parts = ps'\<rparr>])"

text \<open>
  The response type of the vendor SDK: the \<open>text\<close> of a chunk is a string, or
  \<open>undefined\<close> (here \<open>None\<close>) for a chunk without a text part. The call fails
  before a stream exists, or it delivers chunks and then the stream is exhausted or
  throws.
\<close>

record GenerateContentResponse =
  chunk_text :: "string option"

text \<open>
  What \<open>aiMessage.text += chunk.text\<close> appends: string concatenation turns
  \<open>undefined\<close> into the characters \<open>undefined\<close>.
\<close>

definition appended_text :: "GenerateContentResponse \<Rightarrow> string" where
  "appended_text chunk = (case chunk_text chunk of None \<Rightarrow> ''undefined'' | Some s \<Rightarrow> s)"

datatype StreamEnd = Exhausted | Thrown

datatype ApiResponse = CallFailed | Stream "GenerateContentResponse list" StreamEnd

text \<open>
  Sessions and messages are objects that \<open>sendMessage\<close> mutates in place, and the
  signal holds references to them. \<open>publish\<close> is
  \<open>chatSessions.update(sessions => sessions.map(s => s.id === currentSession.id ? currentSession : s))\<close>.
  After its first call every entry with the id of \<open>currentSession\<close> is that very
  object, so each later mutation of \<open>currentSession\<close> or of \<open>aiMessage\<close> shows in
  the signal's value as one more \<open>publish\<close>; the model writes it so, also where the
  source mutates without calling \<open>update\<close> (the \<open>catch\<close> block). One send runs from
  start to end with no other method of the component in between.
\<close>

definition publish :: "ChatSession \<Rightarrow> AppState \<Rightarrow> AppState" where
  "publish currentSession st =
     st\<lparr>chatSessions :=
          map (\<lambda>s. if session_id s = session_id currentSession then currentSession else s)
            (chatSessions st)\<rparr>"

definition newTitle :: "string \<Rightarrow> FileMetadata option \<Rightarrow> string" where
  "newTitle prompt fileMeta =
     (if truthy (take 30 prompt) then take 30 prompt
      else case fileMeta of
             None \<Rightarrow> ''New Conversation''
           | Some f \<Rightarrow> if truthy (fm_name f) then fm_name f else ''New Conversation'')"

text \<open>The title for a first message, then the two pushes.\<close>

definition appendTurn :: "string \<Rightarrow> FileMetadata option \<Rightarrow> ChatSession \<Rightarrow> ChatSession" where
  "appendTurn prompt fileMeta currentSession =
     (let userMessage = \<lparr>msg_role = User, msg_text = prompt, fileInfo = fileMeta\<rparr>;
          s1 = (if length (messages currentSession) = 0
                then currentSession\<lparr>title := newTitle prompt fileMeta\<rparr>
                else currentSession);
          s2 = s1\<lparr>messages := messages s1 @ [userMessage]\<rparr>;
          aiMessage = \<lparr>msg_role = Ai, msg_text = [], fileInfo = None\<rparr>
      in s2\<lparr>messages := messages s2 @ [aiMessage]\<rparr>)"

text \<open>
  The synchronous part of \<open>sendMessage\<close>, up to the \<open>try\<close>: it returns early, or it
  reaches the network call with the state and the locals \<open>currentSession\<close>,
  \<open>prompt\<close> and \<open>fileMeta\<close>.
\<close>

datatype SendStart = Returned AppState | Started AppState ChatSession string "FileMetadata option"

definition startTurn :: "string \<Rightarrow> FileMetadata option \<Rightarrow> ChatSession \<Rightarrow> AppState \<Rightarrow> SendStart" where
  "startTurn prompt fileMeta currentSession st =
     (let cur = appendTurn prompt fileMeta currentSession
      in Started (resetInput (publish cur st)) cur prompt fileMeta)"

definition sendMessage_begin :: "Clock \<Rightarrow> AppState \<Rightarrow> SendStart" where
  "sendMessage_begin now st =
     (let prompt = trim (currentPrompt st); fileMeta = fileMetadata st
      in if \<not> truthy prompt \<and> fileMeta = None then Returned st
         else
           (let st1 = st\<lparr>isLoading := True, error := None\<rparr>
            in case activeSession st1 of
                 Some currentSession \<Rightarrow> startTurn prompt fileMeta currentSession st1
               | None \<Rightarrow>
                   (let st2 = startNewChat now st1
                    in case activeSession st2 of
                         None \<Rightarrow>
                           Returned (st2\<lparr>error := Some ''Could not create or find a chat session.'',
                                        isLoading := False\<rparr>)
                       | Some currentSession \<Rightarrow> startTurn prompt fileMeta currentSession st2)))"

text \<open>
  \<open>aiMessage\<close> is the message pushed last; \<open>setAiText f\<close> assigns \<open>f\<close> of its text to
  its text.
\<close>

definition setAiText :: "(string \<Rightarrow> string) \<Rightarrow> ChatSession \<Rightarrow> ChatSession" where
  "setAiText f currentSession =
     (case rev (messages currentSession) of
        [] \<Rightarrow> currentSession
      | aiMessage # earlier \<Rightarrow>
          currentSession\<lparr>messages := rev earlier @ [aiMessage\<lparr>msg_text := f (msg_text aiMessage)\<rparr>]\<rparr>)"

text \<open>The \<open>for await\<close> loop over the chunks that arrive.\<close>

fun consume :: "GenerateContentResponse list \<Rightarrow> ChatSession \<Rightarrow> AppState \<Rightarrow> ChatSession \<times> AppState" where
  "consume [] currentSession st = (currentSession, st)"
| "consume (chunk # rest) currentSession st =
     (let cur = setAiText (\<lambda>t. t @ appended_text chunk) currentSession
      in consume rest cur (publish cur st))"

definition catchError :: "ChatSession \<Rightarrow> AppState \<Rightarrow> AppState" where
  "catchError currentSession st =
     publish (setAiText (\<lambda>t. ''Sorry, I encountered an error. Please try again.'') currentSession)
       (st\<lparr>error := Some ''An error occurred while communicating with the AI. Please check your setup and try again.''\<rparr>)"

definition finallyBlock :: "AppState \<Rightarrow> AppState" where
  "finallyBlock st = st\<lparr>isLoading := False\<rparr>"

definition sendMessage_stream :: "(Content list \<Rightarrow> ApiResponse) \<Rightarrow> SendStart \<Rightarrow> AppState" where
  "sendMessage_stream api start =
     (case start of
        Returned st \<Rightarrow> st
      | Started st currentSession prompt fileMeta \<Rightarrow>
          (let history = buildHistory (messages currentSession)
           in case api (requestContents history prompt fileMeta) of
                CallFailed \<Rightarrow> finallyBlock (catchError currentSession st)
              | Stream chunks ending \<Rightarrow>
                  (case consume chunks currentSession st of
                     (cur, st') \<Rightarrow>
                       (case ending of
                          Exhausted \<Rightarrow> finallyBlock st'
                        | Thrown \<Rightarrow> finallyBlock (catchError cur st')))))"

definition sendMessage :: "Clock \<Rightarrow> (Content list \<Rightarrow> ApiResponse) \<Rightarrow> AppState \<Rightarrow> AppState" where
  "sendMessage now api st = sendMessage_stream api (sendMessage_begin now st)"

section \<open>Markdown pipe (markdown.pipe.ts)\<close>

text \<open>
  What the pipe returns: the plain string \<open>''\<close>, or the object that
  \<open>DomSanitizer.bypassSecurityTrustHtml\<close> makes. That method wraps its argument
  unchanged and marks it as trusted, so the view inserts it without sanitizing it.
  The markdown parser is a parameter: \<open>None\<close> when \<open>marked.parse\<close> throws.
\<close>

datatype SafeHtml = PlainString string | TrustedHtml string

definition bypassSecurityTrustHtml :: "string \<Rightarrow> SafeHtml" where
  "bypassSecurityTrustHtml rawHtml = TrustedHtml rawHtml"

definition transform :: "(string \<Rightarrow> string option) \<Rightarrow> string option \<Rightarrow> SafeHtml" where
  "transform marked_parse v =
     (case v of
        None \<Rightarrow> PlainString []
      | Some s \<Rightarrow>
          if trim s = [] then PlainString []
          else (case marked_parse s of
                  None \<Rightarrow> PlainString []
                | Some rawHtml \<Rightarrow> bypassSecurityTrustHtml rawHtml))"

section \<open>Vocabulary of the properties\<close>

text \<open>The active id refers to a session of the list, or there is none.\<close>

definition activeIdValid :: "AppState \<Rightarrow> bool" where
  "activeIdValid st =
     (case activeSessionId st of
        None \<Rightarrow> True
      | Some a \<Rightarrow> a \<in> session_id ` set (chatSessions st))"

text \<open>The messages of the active session, none when no session is active.\<close>

definition priorMessages :: "AppState \<Rightarrow> ChatMessage list" where
  "priorMessages st = (case activeSession st of None \<Rightarrow> [] | Some s \<Rightarrow> messages s)"

text \<open>
  The contents that \<open>sendMessage\<close> passes to the vendor call, when it gets that far:
  \<open>None\<close> when it returns before the \<open>try\<close>.
\<close>

definition sentRequest :: "Clock \<Rightarrow> AppState \<Rightarrow> Content list option" where
  "sentRequest now st =
     (case sendMessage_begin now st of
        Returned _ \<Rightarrow> None
      | Started _ currentSession prompt fileMeta \<Rightarrow>
          Some (requestContents (buildHistory (messages currentSession)) prompt fileMeta))"

text \<open>
  The word count in the words of the specification: the tokens of a text are its
  maximal non-empty runs of characters that are not white space, in order.
\<close>

function spec_tokens :: "string \<Rightarrow> string list" where
  "spec_tokens [] = []"
| "spec_tokens (c # cs) =
     (if is_space c then spec_tokens cs
      else (c # takeWhile (\<lambda>x. \<not> is_space x) cs) # spec_tokens (dropWhile (\<lambda>x. \<not> is_space x) cs))"
  by pat_completeness auto
termination
  by (relation "measure length") (auto simp: length_dropWhile_le less_Suc_eq_le)

section \<open>Example data\<close>

definition exampleMeta :: FileMetadata where
  "exampleMeta =
     \<lparr>fm_name = ''notes.txt'', fm_size = 5, fm_type = ''text/plain'', wordCount = 1,
      charCount = 5, base64Content = Some ''aGVsbG8='', pageCount = None\<rparr>"

definition exampleHistory :: "ChatMessage list" where
  "exampleHistory =
     [\<lparr>msg_role = User, msg_text = ''see file'', fileInfo = Some exampleMeta\<rparr>,
      \<lparr>msg_role = Ai, msg_text = ''ok'', fileInfo = None\<rparr>]"

definition exampleNewTurn :: "ChatMessage list" where
  "exampleNewTurn =
     [\<lparr>msg_role = User, msg_text = ''more'', fileInfo = None\<rparr>,
      \<lparr>msg_role = Ai, msg_text = [], fileInfo = None\<rparr>]"

definition exampleClock :: Clock where
  "exampleClock = \<lparr>date_now = 42, new_date = 43\<rparr>"

definition exampleState :: AppState where
  "exampleState = initialState\<lparr>currentPrompt := '' Hello ''\<rparr>"

definition exampleChunks :: "GenerateContentResponse list" where
  "exampleChunks = [\<lparr>chunk_text = Some ''Hi''\<rparr>, \<lparr>chunk_text = Some '' there''\<rparr>]"

definition exampleChunksNoText :: "GenerateContentResponse list" where
  "exampleChunksNoText = [\<lparr>chunk_text = Some ''Hi''\<rparr>, \<lparr>chunk_text = None\<rparr>]"

definition exampleStore :: AppState where
  "exampleStore =
     initialState
       \<lparr>chatSessions :=
          [\<lparr>session_id = ''chat_1'', title = ''Hello'', messages = exampleHistory, createdAt = 1\<rparr>,
           \<lparr>session_id = ''chat_2'', title = ''New Conversation'', messages = [], createdAt = 2\<rparr>],
        activeSessionId := Some ''chat_1''\<rparr>"

definition exampleBigFile :: File where
  "exampleBigFile =
     \<lparr>file_name = ''big.txt'', file_size = 10 * 1024 * 1024, file_type = ''text/plain'',
      readAsDataURL = Some ''data:text/plain;base64,aGVsbG8='', file_text = Some ''hello'',
      numPages = None\<rparr>"

definition exampleAttached :: AppState where
  "exampleAttached = initialState\<lparr>fileMetadata := Some exampleMeta\<rparr>"

definition exampleTextFile :: File where
  "exampleTextFile =
     \<lparr>file_name = ''notes.txt'', file_size = 14, file_type = ''text/plain'',
      readAsDataURL = Some ''data:text/plain;base64,IGhlbGxvICB3b3JsZCA='',
      file_text = Some '' hello  world '', numPages = None\<rparr>"

section \<open>Properties of the history builder\<close>

lemma length_buildHistory: "length (buildHistory msgs) = length msgs - 2"
  by (simp add: buildHistory_def slice_to_minus2_def)

lemma buildHistory_nth:
  "i < length msgs - 2 \<Longrightarrow> buildHistory msgs ! i = historyTurn (msgs ! i)"
  by (simp add: buildHistory_def slice_to_minus2_def)

lemma buildHistory_append2: "buildHistory (pre @ [a, b]) = map historyTurn pre"
  by (simp add: buildHistory_def slice_to_minus2_def)

lemma historyParts_file:
  "msg_role m = User \<Longrightarrow> fileInfo m = Some fi \<Longrightarrow> base64Content fi = Some d \<Longrightarrow> d \<noteq> [] \<Longrightarrow>
   historyParts m = [InlineData (fm_type fi) d, TextPart (msg_text m)]"
  by (simp add: historyParts_def truthy_def)

lemma last_historyParts: "last (parts (historyTurn m)) = TextPart (msg_text m)"
  by (simp add: historyTurn_def historyParts_def Let_def split: option.splits)

lemma content_role_historyTurn:
  "content_role (historyTurn m) = (case msg_role m of Ai \<Rightarrow> ''model'' | User \<Rightarrow> ''user'')"
  by (simp add: historyTurn_def split: Role.splits)

text \<open>
  C1. Let a message list be \<open>pre @ rest\<close>, where \<open>rest\<close> has at least two messages:
  at the send that follows the messages of \<open>pre\<close>, \<open>rest\<close> is the new user prompt and
  the empty placeholder, and at every later send it is longer. For every user
  message of \<open>pre\<close> whose file information has non-empty base64 content, the turn
  that \<open>buildHistory\<close> makes for it is there, at the same index, and its parts are the
  inline file part and then the text part, whatever \<open>rest\<close> is.
\<close>

theorem buildHistory_file_part_first:
  assumes "i < length pre" and "msg_role (pre ! i) = User"
    and "fileInfo (pre ! i) = Some fi" and "base64Content fi = Some d" and "d \<noteq> []"
    and "2 \<le> length rest"
  shows "i < length (buildHistory (pre @ rest)) \<and>
         parts (buildHistory (pre @ rest) ! i) =
           [InlineData (fm_type fi) d, TextPart (msg_text (pre ! i))]"
proof -
  from assms(1,6) have bound: "i < length (pre @ rest) - 2" by simp
  then have "buildHistory (pre @ rest) ! i = historyTurn ((pre @ rest) ! i)"
    by (rule buildHistory_nth)
  also from assms(1) have "(pre @ rest) ! i = pre ! i"
    by (simp add: nth_append)
  finally have "parts (buildHistory (pre @ rest) ! i) = historyParts (pre ! i)"
    by (simp add: historyTurn_def)
  with assms(2-5) bound show ?thesis
    by (simp add: historyParts_file length_buildHistory)
qed

theorem buildHistory_file_part_first_witness:
  "(0::nat) < length exampleHistory \<and> msg_role (exampleHistory ! 0) = User \<and>
   fileInfo (exampleHistory ! 0) = Some exampleMeta \<and>
   base64Content exampleMeta = Some ''aGVsbG8='' \<and> ''aGVsbG8='' \<noteq> [] \<and>
   2 \<le> length exampleNewTurn \<and>
   0 < length (buildHistory (exampleHistory @ exampleNewTurn)) \<and>
   parts (buildHistory (exampleHistory @ exampleNewTurn) ! 0) =
     [InlineData ''text/plain'' ''aGVsbG8='', TextPart ''see file'']"
proof -
  have h1: "(0::nat) < length exampleHistory" by (simp add: exampleHistory_def)
  have h2: "msg_role (exampleHistory ! 0) = User" by (simp add: exampleHistory_def)
  have h3: "fileInfo (exampleHistory ! 0) = Some exampleMeta" by (simp add: exampleHistory_def)
  have h4: "base64Content exampleMeta = Some ''aGVsbG8=''" by (simp add: exampleMeta_def)
  have h5: "''aGVsbG8='' \<noteq> []" by simp
  have h6: "2 \<le> length exampleNewTurn" by (simp add: exampleNewTurn_def)
  have "fm_type exampleMeta = ''text/plain''" by (simp add: exampleMeta_def)
  moreover have "msg_text (exampleHistory ! 0) = ''see file''" by (simp add: exampleHistory_def)
  ultimately show ?thesis
    using buildHistory_file_part_first [OF h1 h2 h3 h4 h5 h6] h1 h2 h3 h4 h6 by simp
qed

text \<open>
  C2. \<open>buildHistory\<close> returns one turn for each message but the last two (none for a
  list of two messages or fewer), in the order of the messages: the roles of the
  turns are the roles of those messages, \<open>model\<close> for \<open>ai\<close> and \<open>user\<close> for \<open>user\<close>,
  the last part of each turn is the text of its message, and the result does not
  depend on the last two messages.
\<close>

theorem buildHistory_one_turn_per_prior_message:
  "length (buildHistory msgs) = length msgs - 2 \<and>
   map content_role (buildHistory msgs) =
     map (\<lambda>m. case msg_role m of Ai \<Rightarrow> ''model'' | User \<Rightarrow> ''user'') (take (length msgs - 2) msgs) \<and>
   map (\<lambda>t. last (parts t)) (buildHistory msgs) =
     map (\<lambda>m. TextPart (msg_text m)) (take (length msgs - 2) msgs) \<and>
   buildHistory (pre @ [a, b]) = buildHistory (pre @ [c, d])"
  by (simp add: length_buildHistory buildHistory_append2)
     (simp add: buildHistory_def slice_to_minus2_def last_historyParts content_role_historyTurn)

section \<open>Properties of the session store\<close>

lemma chatSessions_deleteChat:
  "chatSessions (deleteChat i st) = filter (\<lambda>s. session_id s \<noteq> i) (chatSessions st)"
  by (simp add: deleteChat_def Let_def)

lemma activeSessionId_deleteChat:
  "activeSessionId (deleteChat i st) =
     (if activeSessionId st = Some i
      then (case filter (\<lambda>s. session_id s \<noteq> i) (chatSessions st) of
              [] \<Rightarrow> None | s # _ \<Rightarrow> Some (session_id s))
      else activeSessionId st)"
  by (simp add: deleteChat_def Let_def js_index_def split: list.splits)

text \<open>
  C7. Deleting a session id that is in the list removes every session with that id.
  Afterwards the active id is never the deleted id. If the deleted session was the
  active one, the active id is the id of the first session that is left, or none
  when no session is left, so it refers to a session of the list or is none. If
  another session was deleted, the active id is as before, so an active id that
  referred to a session of the list (or was none) still does.
\<close>

theorem deleteChat_active_never_dangling:
  assumes "i \<in> session_id ` set (chatSessions st)"
  shows "chatSessions (deleteChat i st) = filter (\<lambda>s. session_id s \<noteq> i) (chatSessions st) \<and>
     i \<notin> session_id ` set (chatSessions (deleteChat i st)) \<and>
     length (chatSessions (deleteChat i st)) < length (chatSessions st) \<and>
     activeSessionId (deleteChat i st) \<noteq> Some i \<and>
     (activeSessionId st = Some i \<longrightarrow>
        activeSessionId (deleteChat i st) =
          (case chatSessions (deleteChat i st) of [] \<Rightarrow> None | s # _ \<Rightarrow> Some (session_id s)) \<and>
        activeIdValid (deleteChat i st)) \<and>
     (activeSessionId st \<noteq> Some i \<longrightarrow> activeSessionId (deleteChat i st) = activeSessionId st) \<and>
     (activeIdValid st \<longrightarrow> activeIdValid (deleteChat i st))"
proof -
  let ?rest = "filter (\<lambda>s. session_id s \<noteq> i) (chatSessions st)"
  have gone: "i \<notin> session_id ` set ?rest" by auto
  from assms have shorter: "length ?rest < length (chatSessions st)"
    by (auto intro!: length_filter_less)
  have first_in: "\<And>s ss. ?rest = s # ss \<Longrightarrow> session_id s \<in> session_id ` set ?rest \<and> session_id s \<noteq> i"
  proof -
    fix s ss assume eq: "?rest = s # ss"
    then have "s \<in> set ?rest" by simp
    then show "session_id s \<in> session_id ` set ?rest \<and> session_id s \<noteq> i"
      by auto
  qed
  have fallback: "activeSessionId st = Some i \<Longrightarrow>
      activeSessionId (deleteChat i st) \<noteq> Some i \<and> activeIdValid (deleteChat i st)"
  proof (cases ?rest)
    case Nil
    assume "activeSessionId st = Some i"
    with Nil show ?thesis
      by (simp add: activeIdValid_def activeSessionId_deleteChat)
  next
    case (Cons s ss)
    assume "activeSessionId st = Some i"
    with Cons first_in [OF Cons] show ?thesis
      by (simp add: activeIdValid_def activeSessionId_deleteChat chatSessions_deleteChat)
  qed
  have not_i: "activeSessionId (deleteChat i st) \<noteq> Some i"
  proof (cases "activeSessionId st = Some i")
    case True
    with fallback show ?thesis by simp
  next
    case False
    then show ?thesis by (simp add: activeSessionId_deleteChat)
  qed
  have fallback_valid: "activeSessionId st = Some i \<Longrightarrow> activeIdValid (deleteChat i st)"
    using fallback by simp
  have kept_valid: "activeIdValid st \<Longrightarrow> activeIdValid (deleteChat i st)"
  proof (cases "activeSessionId st = Some i")
    case True
    then show ?thesis by (rule fallback_valid)
  next
    case False
    assume "activeIdValid st"
    with False show ?thesis
      by (auto simp: activeIdValid_def activeSessionId_deleteChat chatSessions_deleteChat
               split: option.splits)
  qed
  show ?thesis
    using gone shorter not_i fallback_valid kept_valid
    by (simp add: chatSessions_deleteChat activeSessionId_deleteChat)
qed

theorem deleteChat_active_never_dangling_witness:
  "''chat_1'' \<in> session_id ` set (chatSessions exampleStore) \<and>
   activeSessionId exampleStore = Some ''chat_1'' \<and>
   map session_id (chatSessions (deleteChat ''chat_1'' exampleStore)) = [''chat_2''] \<and>
   activeSessionId (deleteChat ''chat_1'' exampleStore) = Some ''chat_2'' \<and>
   activeIdValid (deleteChat ''chat_1'' exampleStore)"
proof -
  have h: "''chat_1'' \<in> session_id ` set (chatSessions exampleStore)"
    by (simp add: exampleStore_def)
  have a: "activeSessionId exampleStore = Some ''chat_1''"
    by (simp add: exampleStore_def)
  have s: "filter (\<lambda>s. session_id s \<noteq> ''chat_1'') (chatSessions exampleStore) =
      [\<lparr>session_id = ''chat_2'', title = ''New Conversation'', messages = [], createdAt = 2\<rparr>]"
    by (simp add: exampleStore_def)
  from deleteChat_active_never_dangling [OF h] h a s show ?thesis
    by simp
qed

section \<open>Properties of file attachment\<close>

lemma too_large_message:
  "''File is too large. Max size is '' @ decimal (MAX_FILE_SIZE div 1024 div 1024) @ ''MB.''
     = ''File is too large. Max size is 5MB.''"
proof -
  have "decimal 5 = ''5''" by (subst decimal.simps) simp
  then show ?thesis by (simp add: MAX_FILE_SIZE_def)
qed

lemma handleFileChange_oversize:
  "file_size file > MAX_FILE_SIZE \<Longrightarrow>
   handleFileChange (file # others) st =
     (Fulfilled, st\<lparr>error := Some ''File is too large. Max size is 5MB.'', attachedFile := None\<rparr>)"
  using too_large_message by (simp add: handleFileChange_def)

text \<open>
  C6. A file larger than the 5 MiB limit is rejected: \<open>handleFileChange\<close> sets the
  error to the size message and clears the attached file, and does nothing else; in
  particular \<open>processFile\<close> does not run and the file metadata signal is as it was,
  so no metadata is made for that file.
\<close>

theorem handleFileChange_rejects_oversize:
  assumes "file_size file > MAX_FILE_SIZE"
  shows "handleFileChange (file # others) st =
           (Fulfilled,
            st\<lparr>error := Some ''File is too large. Max size is 5MB.'', attachedFile := None\<rparr>) \<and>
         error (snd (handleFileChange (file # others) st)) =
           Some ''File is too large. Max size is 5MB.'' \<and>
         attachedFile (snd (handleFileChange (file # others) st)) = None \<and>
         fileMetadata (snd (handleFileChange (file # others) st)) = fileMetadata st"
  using assms by (simp add: handleFileChange_oversize)

theorem handleFileChange_rejects_oversize_witness:
  "file_size exampleBigFile > MAX_FILE_SIZE \<and>
   error (snd (handleFileChange [exampleBigFile] initialState)) =
     Some ''File is too large. Max size is 5MB.'' \<and>
   attachedFile (snd (handleFileChange [exampleBigFile] initialState)) = None \<and>
   fileMetadata (snd (handleFileChange [exampleBigFile] initialState)) = None"
proof -
  have h: "file_size exampleBigFile > MAX_FILE_SIZE"
    by (simp add: exampleBigFile_def MAX_FILE_SIZE_def)
  from handleFileChange_rejects_oversize [OF h, of "[]" initialState] h show ?thesis
    by (simp add: initialState_def)
qed

subsection \<open>Counting words\<close>


lemma tokens_spaces: "\<forall>c\<in>set s. is_space c \<Longrightarrow> spec_tokens s = []"
  by (induction s) auto

lemma tokens_dropWhile_space: "spec_tokens (dropWhile is_space s) = spec_tokens s"
  by (induction s) auto

lemma tokens_word_append:
  assumes "\<forall>c\<in>set acc. \<not> is_space c" and "acc \<noteq> []"
  shows "spec_tokens (acc @ s) =
           (acc @ takeWhile (\<lambda>x. \<not> is_space x) s) # spec_tokens (dropWhile (\<lambda>x. \<not> is_space x) s)"
proof -
  from assms(2) obtain a as where acc: "acc = a # as" by (cases acc) auto
  with assms(1) have "\<not> is_space a" and as: "\<forall>c\<in>set as. \<not> is_space c" by auto
  then show ?thesis
    by (simp add: acc takeWhile_append2 dropWhile_append2)
qed

lemma truthy_simps: "\<not> truthy []" "truthy (c # cs)" "s \<noteq> [] \<Longrightarrow> truthy s"
  by (simp_all add: truthy_def)

lemma split_ws_from_tokens:
  "\<forall>c\<in>set acc. \<not> is_space c \<Longrightarrow> filter truthy (split_ws_from acc s) = spec_tokens (acc @ s)"
proof (induction acc s rule: split_ws_from.induct)
  case (1 acc)
  show ?case
  proof (cases "acc = []")
    case True
    then show ?thesis by (simp add: truthy_simps)
  next
    case False
    with tokens_word_append [OF "1.prems" False, of "[]"] show ?thesis
      by (simp add: truthy_simps)
  qed
next
  case (2 acc c cs)
  show ?case
  proof (cases "is_space c")
    case True
    with "2.IH"(1) have rest: "filter truthy (split_ws_from [] (dropWhile is_space cs)) = spec_tokens cs"
      by (simp add: tokens_dropWhile_space)
    show ?thesis
    proof (cases "acc = []")
      case True
      with \<open>is_space c\<close> rest show ?thesis by (simp add: truthy_simps)
    next
      case False
      with tokens_word_append [OF "2.prems" False, of "c # cs"] \<open>is_space c\<close> rest
      show ?thesis by (simp add: truthy_simps)
    qed
  next
    case False
    with "2.prems" have "\<forall>x\<in>set (acc @ [c]). \<not> is_space x" by auto
    with "2.IH"(2) False show ?thesis by simp
  qed
qed

lemma takeWhile_nonspace_append:
  "\<forall>c\<in>set ys. is_space c \<Longrightarrow>
   takeWhile (\<lambda>x. \<not> is_space x) (xs @ ys) = takeWhile (\<lambda>x. \<not> is_space x) xs"
proof (induction xs)
  case Nil
  then show ?case by (cases ys) auto
next
  case (Cons x xs)
  then show ?case by simp
qed

lemma dropWhile_nonspace_append:
  "\<forall>c\<in>set ys. is_space c \<Longrightarrow>
   dropWhile (\<lambda>x. \<not> is_space x) (xs @ ys) = dropWhile (\<lambda>x. \<not> is_space x) xs @ ys"
proof (induction xs)
  case Nil
  then show ?case by (cases ys) auto
next
  case (Cons x xs)
  then show ?case by simp
qed

lemma tokens_append_spaces: "\<forall>c\<in>set ys. is_space c \<Longrightarrow> spec_tokens (xs @ ys) = spec_tokens xs"
proof (induction xs rule: spec_tokens.induct)
  case 1
  then show ?case by (simp add: tokens_spaces)
next
  case (2 c cs)
  then show ?case
    by (simp add: takeWhile_nonspace_append dropWhile_nonspace_append)
qed

lemma tokens_trim: "spec_tokens (trim s) = spec_tokens s"
proof -
  let ?t = "dropWhile is_space s"
  have "?t = rev (dropWhile is_space (rev ?t)) @ rev (takeWhile is_space (rev ?t))"
    by (metis rev_append rev_rev_ident takeWhile_dropWhile_id)
  moreover have "\<forall>c\<in>set (rev (takeWhile is_space (rev ?t))). is_space c"
    by (auto dest: set_takeWhileD)
  ultimately have "spec_tokens ?t = spec_tokens (rev (dropWhile is_space (rev ?t)))"
    using tokens_append_spaces by metis
  then show ?thesis
    by (simp add: trim_def tokens_dropWhile_space)
qed

lemma countWords_tokens: "countWords s = length (spec_tokens s)"
  using split_ws_from_tokens [of "[]" "trim s"]
  by (simp add: countWords_def split_ws_def tokens_trim)


lemma spec_tokens_words:
  "t \<in> set (spec_tokens s) \<Longrightarrow> t \<noteq> [] \<and> (\<forall>c\<in>set t. \<not> is_space c)"
proof (induction s rule: spec_tokens.induct)
  case 1
  then show ?case by simp
next
  case (2 c cs)
  show ?case
  proof (cases "is_space c")
    case True
    with 2 show ?thesis by simp
  next
    case False
    with "2.prems" have "t = c # takeWhile (\<lambda>x. \<not> is_space x) cs \<or>
        t \<in> set (spec_tokens (dropWhile (\<lambda>x. \<not> is_space x) cs))"
      by simp
    then show ?thesis
    proof
      assume "t = c # takeWhile (\<lambda>x. \<not> is_space x) cs"
      with False show ?thesis by (auto dest: set_takeWhileD)
    next
      assume "t \<in> set (spec_tokens (dropWhile (\<lambda>x. \<not> is_space x) cs))"
      with "2.IH"(2) False show ?thesis by simp
    qed
  qed
qed

lemma filter_takeWhile_dropWhile:
  "filter P xs = takeWhile P xs @ filter P (dropWhile P xs)"
  by (induction xs) auto

lemma concat_spec_tokens: "concat (spec_tokens s) = filter (\<lambda>c. \<not> is_space c) s"
proof (induction s rule: spec_tokens.induct)
  case 1
  then show ?case by simp
next
  case (2 c cs)
  show ?case
  proof (cases "is_space c")
    case True
    with 2 show ?thesis by simp
  next
    case False
    with 2 have "concat (spec_tokens (c # cs)) =
        c # takeWhile (\<lambda>x. \<not> is_space x) cs @
          filter (\<lambda>c. \<not> is_space c) (dropWhile (\<lambda>x. \<not> is_space x) cs)"
      by simp
    also have "\<dots> = c # filter (\<lambda>c. \<not> is_space c) cs"
      using filter_takeWhile_dropWhile [of "\<lambda>c. \<not> is_space c" cs] by simp
    finally show ?thesis using False by simp
  qed
qed

lemma fileToBase64_Some:
  "readAsDataURL file = Some url \<Longrightarrow>
   fileToBase64 file = Some (js_index (split_on CHR '','' [] url) 1)"
  by (simp add: fileToBase64_def)

text \<open>
  C8. For a file whose type starts with \<open>text/\<close> and whose readers deliver, the
  metadata that \<open>processFile\<close> stores has the length of the text as its character
  count and the number of tokens of the text as its word count, which is 0 when
  the text is empty or all white space; \<open>handleFileChange\<close> stores the same
  metadata when the file is within the size limit.
\<close>

theorem processFile_text_counts:
  assumes "startsWith (file_type file) ''text/''"
    and "readAsDataURL file = Some url" and "file_text file = Some textContent"
  shows "\<exists>md. processFile file st = (Fulfilled, st\<lparr>fileMetadata := Some md\<rparr>) \<and>
           charCount md = length textContent \<and>
           wordCount md = length (spec_tokens textContent) \<and>
           ((\<forall>c\<in>set textContent. is_space c) \<longrightarrow> wordCount md = 0) \<and>
           (file_size file \<le> MAX_FILE_SIZE \<longrightarrow>
              fileMetadata (snd (handleFileChange (file # others) st)) = Some md)"
proof -
  let ?md = "\<lparr>fm_name = file_name file, fm_size = file_size file, fm_type = file_type file,
              wordCount = countWords textContent, charCount = length textContent,
              base64Content = js_index (split_on CHR '','' [] url) 1, pageCount = None\<rparr>"
  from assms have p: "\<And>s. processFile file s = (Fulfilled, s\<lparr>fileMetadata := Some ?md\<rparr>)"
    by (simp add: processFile_def fileToBase64_Some)
  have w: "wordCount ?md = length (spec_tokens textContent)"
    by (simp add: countWords_tokens)
  have z: "(\<forall>c\<in>set textContent. is_space c) \<longrightarrow> wordCount ?md = 0"
    by (simp add: countWords_tokens tokens_spaces)
  have h: "file_size file \<le> MAX_FILE_SIZE \<longrightarrow>
              fileMetadata (snd (handleFileChange (file # others) st)) = Some ?md"
    by (simp add: handleFileChange_def p)
  from p [of st] w z h show ?thesis
    by (intro exI [where x = ?md]) simp
qed

theorem processFile_text_counts_witness:
  "startsWith (file_type exampleTextFile) ''text/'' \<and>
   readAsDataURL exampleTextFile = Some ''data:text/plain;base64,IGhlbGxvICB3b3JsZCA='' \<and>
   file_text exampleTextFile = Some '' hello  world '' \<and>
   (\<exists>md. fileMetadata (snd (handleFileChange [exampleTextFile] initialState)) = Some md \<and>
      charCount md = 14 \<and> wordCount md = 2)"
proof -
  have h1: "startsWith (file_type exampleTextFile) ''text/''"
    by (simp add: exampleTextFile_def startsWith_def)
  have h2: "readAsDataURL exampleTextFile = Some ''data:text/plain;base64,IGhlbGxvICB3b3JsZCA=''"
    by (simp add: exampleTextFile_def)
  have h3: "file_text exampleTextFile = Some '' hello  world ''"
    by (simp add: exampleTextFile_def)
  have sz: "file_size exampleTextFile \<le> MAX_FILE_SIZE"
    by (simp add: exampleTextFile_def MAX_FILE_SIZE_def)
  have tk: "spec_tokens '' hello  world '' = [''hello'', ''world'']"
    by (simp add: is_space_def)
  from processFile_text_counts [OF h1 h2 h3, of initialState "[]"] sz tk h1 h2 h3
  show ?thesis
    by auto
qed

section \<open>Properties of sending\<close>

lemma truthy_chat_id: "truthy (''chat_'' @ decimal (date_now now))"
  by (simp add: truthy_def)

lemma activeSession_cong:
  "chatSessions a = chatSessions b \<Longrightarrow> activeSessionId a = activeSessionId b \<Longrightarrow>
   activeSession a = activeSession b"
  by (simp add: activeSession_def split: option.splits)

lemma activeSession_flags [simp]:
  "activeSession (st\<lparr>isLoading := b, error := e\<rparr>) = activeSession st"
  "activeSession (st\<lparr>error := e\<rparr>) = activeSession st"
  "activeSession (st\<lparr>isLoading := b\<rparr>) = activeSession st"
  by (rule activeSession_cong, simp, simp)+

lemma resetInput_fields [simp]:
  "chatSessions (resetInput st) = chatSessions st"
  "activeSessionId (resetInput st) = activeSessionId st"
  "isLoading (resetInput st) = isLoading st"
  "error (resetInput st) = error st"
  "currentPrompt (resetInput st) = []"
  "attachedFile (resetInput st) = None"
  "fileMetadata (resetInput st) = None"
  by (simp_all add: resetInput_def removeAttachment_def)

lemma activeSession_resetInput [simp]: "activeSession (resetInput st) = activeSession st"
  by (rule activeSession_cong) simp_all

lemma startNewChat_fields [simp]:
  "chatSessions (startNewChat now st) =
     \<lparr>session_id = ''chat_'' @ decimal (date_now now), title = ''New Conversation'',
      messages = [], createdAt = new_date now\<rparr> # chatSessions st"
  "activeSessionId (startNewChat now st) = Some (''chat_'' @ decimal (date_now now))"
  "isLoading (startNewChat now st) = isLoading st"
  "error (startNewChat now st) = error st"
  by (simp_all add: startNewChat_def Let_def)

lemma activeSession_startNewChat:
  "activeSession (startNewChat now st) =
     Some \<lparr>session_id = ''chat_'' @ decimal (date_now now), title = ''New Conversation'',
           messages = [], createdAt = new_date now\<rparr>"
  by (simp add: activeSession_def truthy_def)

lemma find_replace:
  "find (\<lambda>s. session_id s = i) xs = Some old \<Longrightarrow> session_id cur = i \<Longrightarrow>
   find (\<lambda>s. session_id s = i) (map (\<lambda>s. if session_id s = i then cur else s) xs) = Some cur"
  by (induction xs) (auto split: if_splits)

lemma activeSession_id:
  "activeSession st = Some s \<Longrightarrow> activeSessionId st = Some (session_id s)"
  by (auto simp: activeSession_def find_Some_iff split: option.splits if_splits)

lemma activeSession_publish:
  assumes "activeSession st = Some old" and "session_id cur = session_id old"
  shows "activeSession (publish cur st) = Some cur"
proof -
  from assms(1) have aid: "activeSessionId st = Some (session_id old)"
    by (rule activeSession_id)
  with assms(1) have "truthy (session_id old)"
    and "find (\<lambda>s. session_id s = session_id old) (chatSessions st) = Some old"
    by (auto simp: activeSession_def split: if_splits)
  with aid assms(2) show ?thesis
    using find_replace [of "session_id old" "chatSessions st" old cur]
    by (simp add: activeSession_def publish_def)
qed

lemma session_id_appendTurn [simp]: "session_id (appendTurn p f s) = session_id s"
  by (simp add: appendTurn_def Let_def)

lemma messages_appendTurn:
  "messages (appendTurn p f s) =
     messages s @ [\<lparr>msg_role = User, msg_text = p, fileInfo = f\<rparr>,
                   \<lparr>msg_role = Ai, msg_text = [], fileInfo = None\<rparr>]"
  by (simp add: appendTurn_def Let_def)

lemma title_appendTurn:
  "title (appendTurn p f s) = (if messages s = [] then newTitle p f else title s)"
  by (simp add: appendTurn_def Let_def)

lemma session_id_setAiText [simp]: "session_id (setAiText f s) = session_id s"
  by (simp add: setAiText_def split: list.splits)

lemma title_setAiText [simp]: "title (setAiText f s) = title s"
  by (simp add: setAiText_def split: list.splits)

lemma messages_setAiText:
  "messages s = ms @ [m] \<Longrightarrow>
   messages (setAiText f s) = ms @ [m\<lparr>msg_text := f (msg_text m)\<rparr>]"
  by (simp add: setAiText_def)

lemma publish_fields [simp]:
  "activeSessionId (publish c st) = activeSessionId st"
  "isLoading (publish c st) = isLoading st"
  "error (publish c st) = error st"
  "fileMetadata (publish c st) = fileMetadata st"
  "attachedFile (publish c st) = attachedFile st"
  "currentPrompt (publish c st) = currentPrompt st"
  by (simp_all add: publish_def)

lemma filter_replace:
  "session_id c = i \<Longrightarrow>
   filter (\<lambda>t. session_id t \<noteq> i) (map (\<lambda>s. if session_id s = i then c else s) xs) =
     filter (\<lambda>t. session_id t \<noteq> i) xs"
  by (induction xs) auto

lemma others_publish:
  "session_id c = session_id old \<Longrightarrow>
   filter (\<lambda>t. session_id t \<noteq> session_id old) (chatSessions (publish c st)) =
     filter (\<lambda>t. session_id t \<noteq> session_id old) (chatSessions st)"
  by (simp add: publish_def filter_replace)

lemma setAiText_last:
  "messages s = ms @ [m] \<Longrightarrow>
   setAiText f s = s\<lparr>messages := ms @ [m\<lparr>msg_text := f (msg_text m)\<rparr>]\<rparr>"
  by (simp add: setAiText_def)

lemma consume_result:
  assumes "activeSession st = Some cur" and "messages cur = ms @ [m]"
  shows "\<exists>st'. consume chunks cur st =
             (cur\<lparr>messages := ms @ [m\<lparr>msg_text := msg_text m @ concat (map appended_text chunks)\<rparr>]\<rparr>, st') \<and>
           activeSession st' =
             Some (cur\<lparr>messages := ms @ [m\<lparr>msg_text := msg_text m @ concat (map appended_text chunks)\<rparr>]\<rparr>) \<and>
           isLoading st' = isLoading st \<and> error st' = error st \<and>
           activeSessionId st' = activeSessionId st \<and>
           filter (\<lambda>t. session_id t \<noteq> session_id cur) (chatSessions st') =
             filter (\<lambda>t. session_id t \<noteq> session_id cur) (chatSessions st)"
  using assms
proof (induction chunks arbitrary: cur st m)
  case Nil
  then show ?case by simp
next
  case (Cons chunk rest)
  let ?m = "m\<lparr>msg_text := msg_text m @ appended_text chunk\<rparr>"
  let ?cur = "cur\<lparr>messages := ms @ [?m]\<rparr>"
  from Cons.prems(2) have step: "setAiText (\<lambda>t. t @ appended_text chunk) cur = ?cur"
    by (rule setAiText_last)
  have msgs: "messages ?cur = ms @ [?m]" by simp
  from Cons.prems(1) have act: "activeSession (publish ?cur st) = Some ?cur"
    by (rule activeSession_publish) simp
  from Cons.IH [OF act msgs] step show ?case
    by (simp add: Let_def others_publish [of ?cur cur st])
qed

lemma catchError_result:
  assumes "activeSession st = Some cur" and "messages cur = ms @ [m]"
  shows "activeSession (finallyBlock (catchError cur st)) =
           Some (cur\<lparr>messages := ms @ [m\<lparr>msg_text := ''Sorry, I encountered an error. Please try again.''\<rparr>]\<rparr>) \<and>
         error (finallyBlock (catchError cur st)) =
           Some ''An error occurred while communicating with the AI. Please check your setup and try again.'' \<and>
         isLoading (finallyBlock (catchError cur st)) = False \<and>
         activeSessionId (finallyBlock (catchError cur st)) = activeSessionId st \<and>
         filter (\<lambda>t. session_id t \<noteq> session_id cur) (chatSessions (finallyBlock (catchError cur st))) =
           filter (\<lambda>t. session_id t \<noteq> session_id cur) (chatSessions st)"
proof -
  let ?cur = "setAiText (\<lambda>t. ''Sorry, I encountered an error. Please try again.'') cur"
  let ?st = "st\<lparr>error := Some ''An error occurred while communicating with the AI. Please check your setup and try again.''\<rparr>"
  from assms(2) have eq: "?cur = cur\<lparr>messages := ms @ [m\<lparr>msg_text := ''Sorry, I encountered an error. Please try again.''\<rparr>]\<rparr>"
    by (simp add: setAiText_def)
  from assms(1) have "activeSession ?st = Some cur"
    by simp
  then have "activeSession (publish ?cur ?st) = Some ?cur"
    by (rule activeSession_publish) simp
  then have "activeSession (finallyBlock (catchError cur st)) = Some ?cur"
    by (simp add: finallyBlock_def catchError_def)
  with eq show ?thesis
    using others_publish [of ?cur cur ?st]
    by (simp add: finallyBlock_def catchError_def)
qed

lemma sendMessage_begin_started:
  assumes "truthy (trim (currentPrompt st)) \<or> fileMetadata st \<noteq> None"
  shows "\<exists>st1 cur. sendMessage_begin now st =
             Started st1 cur (trim (currentPrompt st)) (fileMetadata st) \<and>
           activeSession st1 = Some cur \<and>
           messages cur = priorMessages st @
             [\<lparr>msg_role = User, msg_text = trim (currentPrompt st), fileInfo = fileMetadata st\<rparr>,
              \<lparr>msg_role = Ai, msg_text = [], fileInfo = None\<rparr>] \<and>
           title cur =
             (case activeSession st of
                None \<Rightarrow> newTitle (trim (currentPrompt st)) (fileMetadata st)
              | Some old \<Rightarrow>
                  if messages old = [] then newTitle (trim (currentPrompt st)) (fileMetadata st)
                  else title old) \<and>
           (case activeSession st of None \<Rightarrow> True | Some old \<Rightarrow> session_id cur = session_id old) \<and>
           isLoading st1 \<and> error st1 = None \<and> currentPrompt st1 = [] \<and>
           attachedFile st1 = None \<and> fileMetadata st1 = None \<and>
           filter (\<lambda>t. session_id t \<noteq> session_id cur) (chatSessions st1) =
             filter (\<lambda>t. session_id t \<noteq> session_id cur) (chatSessions st)"
proof (cases "activeSession st")
  case (Some old)
  let ?st1 = "st\<lparr>isLoading := True, error := None\<rparr>"
  let ?cur = "appendTurn (trim (currentPrompt st)) (fileMetadata st) old"
  from Some have "activeSession ?st1 = Some old" by simp
  then have "activeSession (publish ?cur ?st1) = Some ?cur"
    by (rule activeSession_publish) simp
  with Some assms show ?thesis
    using others_publish [of ?cur old ?st1]
    by (simp add: sendMessage_begin_def startTurn_def Let_def priorMessages_def
          messages_appendTurn title_appendTurn)
next
  case None
  let ?st1 = "st\<lparr>isLoading := True, error := None\<rparr>"
  let ?st2 = "startNewChat now ?st1"
  let ?new = "\<lparr>session_id = ''chat_'' @ decimal (date_now now), title = ''New Conversation'',
           messages = [], createdAt = new_date now\<rparr>"
  let ?cur = "appendTurn (trim (currentPrompt st)) (fileMetadata st) ?new"
  have new: "activeSession ?st2 = Some ?new" by (rule activeSession_startNewChat)
  then have act: "activeSession (publish ?cur ?st2) = Some ?cur"
    by (rule activeSession_publish) simp
  have sessions: "chatSessions ?st2 = ?new # chatSessions st"
    by simp
  have flags: "isLoading ?st2" "error ?st2 = None"
    by simp_all
  from None have none1: "activeSession ?st1 = None" by simp
  have started: "sendMessage_begin now st =
      Started (resetInput (publish ?cur ?st2)) ?cur (trim (currentPrompt st)) (fileMetadata st)"
    using assms none1 new by (simp add: sendMessage_begin_def startTurn_def Let_def)
  have others: "filter (\<lambda>t. session_id t \<noteq> session_id ?cur) (chatSessions (resetInput (publish ?cur ?st2))) =
             filter (\<lambda>t. session_id t \<noteq> session_id ?cur) (chatSessions st)"
    using others_publish [of ?cur ?new ?st2] sessions
    by simp
  from started act None flags others show ?thesis
    by (simp add: priorMessages_def messages_appendTurn title_appendTurn)
qed


lemma sendMessage_stream_failed:
  assumes "activeSession st1 = Some cur" and "messages cur = ms @ [m]"
    and "api (requestContents (buildHistory (messages cur)) p f) = CallFailed \<or>
         api (requestContents (buildHistory (messages cur)) p f) = Stream chunks Thrown"
  shows "activeSession (sendMessage_stream api (Started st1 cur p f)) =
           Some (cur\<lparr>messages := ms @ [m\<lparr>msg_text := ''Sorry, I encountered an error. Please try again.''\<rparr>]\<rparr>) \<and>
         error (sendMessage_stream api (Started st1 cur p f)) =
           Some ''An error occurred while communicating with the AI. Please check your setup and try again.'' \<and>
         isLoading (sendMessage_stream api (Started st1 cur p f)) = False"
  using assms(3)
proof
  assume "api (requestContents (buildHistory (messages cur)) p f) = CallFailed"
  with catchError_result [OF assms(1,2)] show ?thesis
    by (simp add: sendMessage_stream_def)
next
  assume thrown: "api (requestContents (buildHistory (messages cur)) p f) = Stream chunks Thrown"
  let ?cur = "cur\<lparr>messages := ms @ [m\<lparr>msg_text := msg_text m @ concat (map appended_text chunks)\<rparr>]\<rparr>"
  from consume_result [OF assms(1,2), of chunks] obtain st'
    where c: "consume chunks cur st1 = (?cur, st')" and a: "activeSession st' = Some ?cur"
    by blast
  have m: "messages ?cur = ms @ [m\<lparr>msg_text := msg_text m @ concat (map appended_text chunks)\<rparr>]"
    by simp
  from catchError_result [OF a m] thrown c show ?thesis
    by (simp add: sendMessage_stream_def)
qed

lemma sendMessage_stream_exhausted:
  assumes "activeSession st1 = Some cur" and "messages cur = ms @ [m]"
    and "api (requestContents (buildHistory (messages cur)) p f) = Stream chunks Exhausted"
  shows "activeSession (sendMessage_stream api (Started st1 cur p f)) =
           Some (cur\<lparr>messages := ms @ [m\<lparr>msg_text := msg_text m @ concat (map appended_text chunks)\<rparr>]\<rparr>) \<and>
         error (sendMessage_stream api (Started st1 cur p f)) = error st1 \<and>
         isLoading (sendMessage_stream api (Started st1 cur p f)) = False"
proof -
  from consume_result [OF assms(1,2), of chunks] obtain st'
    where "consume chunks cur st1 =
             (cur\<lparr>messages := ms @ [m\<lparr>msg_text := msg_text m @ concat (map appended_text chunks)\<rparr>]\<rparr>, st')"
      and "activeSession st' =
             Some (cur\<lparr>messages := ms @ [m\<lparr>msg_text := msg_text m @ concat (map appended_text chunks)\<rparr>]\<rparr>)"
      and "error st' = error st1"
    by blast
  with assms(3) show ?thesis
    by (simp add: sendMessage_stream_def finallyBlock_def)
qed


lemma sendMessage_stream_any:
  assumes "activeSession st1 = Some cur" and "messages cur = ms @ [m]"
  shows "\<exists>t. activeSession (sendMessage_stream api (Started st1 cur p f)) =
           Some (cur\<lparr>messages := ms @ [m\<lparr>msg_text := t\<rparr>]\<rparr>) \<and>
         filter (\<lambda>t. session_id t \<noteq> session_id cur)
             (chatSessions (sendMessage_stream api (Started st1 cur p f))) =
           filter (\<lambda>t. session_id t \<noteq> session_id cur) (chatSessions st1)"
proof (cases "api (requestContents (buildHistory (messages cur)) p f)")
  case CallFailed
  with catchError_result [OF assms] show ?thesis
    by (intro exI [where x = "''Sorry, I encountered an error. Please try again.''"])
       (simp add: sendMessage_stream_def)
next
  case (Stream chunks ending)
  let ?cur = "cur\<lparr>messages := ms @ [m\<lparr>msg_text := msg_text m @ concat (map appended_text chunks)\<rparr>]\<rparr>"
  from consume_result [OF assms, of chunks] obtain st'
    where c: "consume chunks cur st1 = (?cur, st')" and a: "activeSession st' = Some ?cur"
      and o: "filter (\<lambda>t. session_id t \<noteq> session_id cur) (chatSessions st') =
             filter (\<lambda>t. session_id t \<noteq> session_id cur) (chatSessions st1)"
    by blast
  have m: "messages ?cur = ms @ [m\<lparr>msg_text := msg_text m @ concat (map appended_text chunks)\<rparr>]"
    by simp
  show ?thesis
  proof (cases ending)
    case Exhausted
    with Stream c a o show ?thesis
      by (intro exI [where x = "msg_text m @ concat (map appended_text chunks)"])
         (simp add: sendMessage_stream_def finallyBlock_def)
  next
    case Thrown
    with Stream c o catchError_result [OF a m] show ?thesis
      by (intro exI [where x = "''Sorry, I encountered an error. Please try again.''"])
         (simp add: sendMessage_stream_def)
  qed
qed

lemma sentRequest_iff:
  "(\<exists>req. sentRequest now st = Some req) \<longleftrightarrow>
     (truthy (trim (currentPrompt st)) \<or> fileMetadata st \<noteq> None)"
proof
  assume "\<exists>req. sentRequest now st = Some req"
  then show "truthy (trim (currentPrompt st)) \<or> fileMetadata st \<noteq> None"
    by (auto simp: sentRequest_def sendMessage_begin_def Let_def split: if_splits)
next
  assume "truthy (trim (currentPrompt st)) \<or> fileMetadata st \<noteq> None"
  from sendMessage_begin_started [OF this, of now] show "\<exists>req. sentRequest now st = Some req"
    by (auto simp: sentRequest_def)
qed

lemma sentRequest_started:
  assumes "sentRequest now st = Some req"
  shows "\<exists>st1 cur. sendMessage_begin now st =
             Started st1 cur (trim (currentPrompt st)) (fileMetadata st) \<and>
           req = requestContents (buildHistory (messages cur)) (trim (currentPrompt st)) (fileMetadata st) \<and>
           activeSession st1 = Some cur \<and>
           messages cur = priorMessages st @
             [\<lparr>msg_role = User, msg_text = trim (currentPrompt st), fileInfo = fileMetadata st\<rparr>,
              \<lparr>msg_role = Ai, msg_text = [], fileInfo = None\<rparr>] \<and>
           isLoading st1 \<and> error st1 = None"
proof -
  from assms have "truthy (trim (currentPrompt st)) \<or> fileMetadata st \<noteq> None"
    using sentRequest_iff [of now st] by blast
  from sendMessage_begin_started [OF this, of now] assms show ?thesis
    by (auto simp: sentRequest_def)
qed

lemma trim_example: "trim '' Hello '' = ''Hello''"
  by (simp add: trim_def is_space_def)

lemma exampleState_fields:
  "currentPrompt exampleState = '' Hello ''" "fileMetadata exampleState = None"
  "activeSession exampleState = None" "priorMessages exampleState = []"
  by (simp_all add: exampleState_def initialState_def activeSession_def priorMessages_def)

lemma sentRequest_example:
  "sentRequest exampleClock exampleState = Some [\<lparr>content_role = ''user'', parts = [TextPart ''Hello'']\<rparr>]"
proof -
  have "truthy (trim (currentPrompt exampleState)) \<or> fileMetadata exampleState \<noteq> None"
    by (simp add: exampleState_fields trim_example truthy_def)
  from sendMessage_begin_started [OF this, of exampleClock] show ?thesis
    by (auto simp: sentRequest_def exampleState_fields trim_example requestContents_def
          buildHistory_def slice_to_minus2_def)
qed

text \<open>
  C3. A send reaches the network call exactly when its precondition holds
  (\<open>sentRequest_iff\<close>). When it does and the call fails, or the stream throws
  after any number of chunks, the error signal is the fixed message, the loading
  flag is cleared, and the messages of the active session are the earlier messages,
  the user message and the placeholder with the fixed apology as its text, whatever
  fragments had arrived.
\<close>

theorem sendMessage_stream_throws:
  assumes "sentRequest now st = Some req"
    and "api req = CallFailed \<or> api req = Stream chunks Thrown"
  shows "error (sendMessage now api st) =
           Some ''An error occurred while communicating with the AI. Please check your setup and try again.'' \<and>
         isLoading (sendMessage now api st) = False \<and>
         map_option messages (activeSession (sendMessage now api st)) =
           Some (priorMessages st @
             [\<lparr>msg_role = User, msg_text = trim (currentPrompt st), fileInfo = fileMetadata st\<rparr>,
              \<lparr>msg_role = Ai, msg_text = ''Sorry, I encountered an error. Please try again.'',
               fileInfo = None\<rparr>])"
proof -
  let ?u = "\<lparr>msg_role = User, msg_text = trim (currentPrompt st), fileInfo = fileMetadata st\<rparr>"
  let ?ph = "\<lparr>msg_role = Ai, msg_text = [], fileInfo = None\<rparr>"
  from sentRequest_started [OF assms(1)] obtain st1 cur
    where b: "sendMessage_begin now st = Started st1 cur (trim (currentPrompt st)) (fileMetadata st)"
      and r: "req = requestContents (buildHistory (messages cur)) (trim (currentPrompt st)) (fileMetadata st)"
      and a: "activeSession st1 = Some cur"
      and m: "messages cur = (priorMessages st @ [?u]) @ [?ph]"
    by auto
  from assms(2) r
  have "api (requestContents (buildHistory (messages cur)) (trim (currentPrompt st)) (fileMetadata st)) = CallFailed \<or>
        api (requestContents (buildHistory (messages cur)) (trim (currentPrompt st)) (fileMetadata st)) = Stream chunks Thrown"
    by simp
  from sendMessage_stream_failed [where api = api and chunks = chunks, OF a m this] b show ?thesis
    by (simp add: sendMessage_def)
qed

theorem sendMessage_stream_throws_witness:
  "sentRequest exampleClock exampleState = Some [\<lparr>content_role = ''user'', parts = [TextPart ''Hello'']\<rparr>] \<and>
   error (sendMessage exampleClock (\<lambda>r. Stream exampleChunks Thrown) exampleState) =
     Some ''An error occurred while communicating with the AI. Please check your setup and try again.'' \<and>
   isLoading (sendMessage exampleClock (\<lambda>r. Stream exampleChunks Thrown) exampleState) = False \<and>
   map_option messages (activeSession (sendMessage exampleClock (\<lambda>r. Stream exampleChunks Thrown) exampleState)) =
     Some [\<lparr>msg_role = User, msg_text = ''Hello'', fileInfo = None\<rparr>,
           \<lparr>msg_role = Ai, msg_text = ''Sorry, I encountered an error. Please try again.'',
            fileInfo = None\<rparr>]"
proof -
  have h2: "(\<lambda>r. Stream exampleChunks Thrown) [\<lparr>content_role = ''user'', parts = [TextPart ''Hello'']\<rparr>] = CallFailed \<or>
            (\<lambda>r. Stream exampleChunks Thrown) [\<lparr>content_role = ''user'', parts = [TextPart ''Hello'']\<rparr>] = Stream exampleChunks Thrown"
    by simp
  from sendMessage_stream_throws [OF sentRequest_example h2] sentRequest_example
  show ?thesis
    by (simp add: exampleState_fields trim_example)
qed

text \<open>
  The state at the network call has the user message and the empty placeholder
  appended to the messages of the active session, and the request is built from
  those messages. After a stream that is exhausted, the text of the placeholder is
  the concatenation of what each chunk appended, in the order of arrival.
\<close>

lemma sendMessage_exhausted_result:
  assumes "sentRequest now st = Some req" and "api req = Stream chunks Exhausted"
  shows "(\<exists>st1 cur.
            sendMessage_begin now st =
              Started st1 cur (trim (currentPrompt st)) (fileMetadata st) \<and>
            req = requestContents (buildHistory (messages cur)) (trim (currentPrompt st)) (fileMetadata st) \<and>
            activeSession st1 = Some cur \<and>
            messages cur = priorMessages st @
              [\<lparr>msg_role = User, msg_text = trim (currentPrompt st), fileInfo = fileMetadata st\<rparr>,
               \<lparr>msg_role = Ai, msg_text = [], fileInfo = None\<rparr>]) \<and>
         map_option messages (activeSession (sendMessage now api st)) =
           Some (priorMessages st @
             [\<lparr>msg_role = User, msg_text = trim (currentPrompt st), fileInfo = fileMetadata st\<rparr>,
              \<lparr>msg_role = Ai, msg_text = concat (map appended_text chunks), fileInfo = None\<rparr>]) \<and>
         isLoading (sendMessage now api st) = False \<and>
         error (sendMessage now api st) = None"
proof -
  let ?u = "\<lparr>msg_role = User, msg_text = trim (currentPrompt st), fileInfo = fileMetadata st\<rparr>"
  let ?ph = "\<lparr>msg_role = Ai, msg_text = [], fileInfo = None\<rparr>"
  from sentRequest_started [OF assms(1)] obtain st1 cur
    where b: "sendMessage_begin now st = Started st1 cur (trim (currentPrompt st)) (fileMetadata st)"
      and r: "req = requestContents (buildHistory (messages cur)) (trim (currentPrompt st)) (fileMetadata st)"
      and a: "activeSession st1 = Some cur"
      and m: "messages cur = (priorMessages st @ [?u]) @ [?ph]"
      and e: "error st1 = None"
    by auto
  from assms(2) r
  have "api (requestContents (buildHistory (messages cur)) (trim (currentPrompt st)) (fileMetadata st)) = Stream chunks Exhausted"
    by simp
  from sendMessage_stream_exhausted [where api = api and chunks = chunks, OF a m this] b e have
    "map_option messages (activeSession (sendMessage now api st)) =
           Some (priorMessages st @ [?u, ?ph\<lparr>msg_text := concat (map appended_text chunks)\<rparr>]) \<and>
         isLoading (sendMessage now api st) = False \<and>
         error (sendMessage now api st) = None"
    by (simp add: sendMessage_def)
  moreover from b r a m have "\<exists>st1 cur.
            sendMessage_begin now st =
              Started st1 cur (trim (currentPrompt st)) (fileMetadata st) \<and>
            req = requestContents (buildHistory (messages cur)) (trim (currentPrompt st)) (fileMetadata st) \<and>
            activeSession st1 = Some cur \<and>
            messages cur = priorMessages st @ [?u, ?ph]"
    by auto
  ultimately show ?thesis by simp
qed


lemma sendMessage_exhausted_example:
  "map_option messages (activeSession (sendMessage exampleClock (\<lambda>r. Stream exampleChunks Exhausted) exampleState)) =
     Some [\<lparr>msg_role = User, msg_text = ''Hello'', fileInfo = None\<rparr>,
           \<lparr>msg_role = Ai, msg_text = ''Hi there'', fileInfo = None\<rparr>]"
proof -
  have h2: "(\<lambda>r. Stream exampleChunks Exhausted) [\<lparr>content_role = ''user'', parts = [TextPart ''Hello'']\<rparr>] = Stream exampleChunks Exhausted"
    by simp
  from sendMessage_exhausted_result [OF sentRequest_example h2]
  show ?thesis
    by (simp add: exampleState_fields trim_example exampleChunks_def appended_text_def)
qed

text \<open>
  C9. The user message and the empty placeholder are appended before the network
  call, but the text of the placeholder after an exhausted stream is not always the
  concatenation of the streamed text fragments: a chunk without a text part appends
  the characters \<open>undefined\<close>. For the stream of the fragment \<open>Hi\<close> and a chunk
  without text, both messages are there when the request is made, the stream
  succeeds, and the text of the placeholder is \<open>Hiundefined\<close>; the fragments
  concatenate to \<open>Hi\<close>.
\<close>

theorem sendMessage_appends_undefined_for_chunk_without_text:
  "sentRequest exampleClock exampleState =
     Some [\<lparr>content_role = ''user'', parts = [TextPart ''Hello'']\<rparr>] \<and>
   map_option messages
       (activeSession (sendMessage exampleClock (\<lambda>r. Stream exampleChunksNoText Exhausted) exampleState)) =
     Some [\<lparr>msg_role = User, msg_text = ''Hello'', fileInfo = None\<rparr>,
           \<lparr>msg_role = Ai, msg_text = ''Hiundefined'', fileInfo = None\<rparr>] \<and>
   error (sendMessage exampleClock (\<lambda>r. Stream exampleChunksNoText Exhausted) exampleState) = None \<and>
   concat (map (\<lambda>c. case chunk_text c of None \<Rightarrow> [] | Some s \<Rightarrow> s) exampleChunksNoText) = ''Hi''"
proof -
  have h2: "(\<lambda>r. Stream exampleChunksNoText Exhausted) [\<lparr>content_role = ''user'', parts = [TextPart ''Hello'']\<rparr>] = Stream exampleChunksNoText Exhausted"
    by simp
  from sendMessage_exhausted_result [OF sentRequest_example h2] sentRequest_example
  show ?thesis
    by (simp add: exampleState_fields trim_example exampleChunksNoText_def appended_text_def)
qed

lemma newTitle_cases:
  "(truthy p \<longrightarrow> newTitle p f = take 30 p) \<and>
   (\<not> truthy p \<longrightarrow> (\<forall>fm. f = Some fm \<and> truthy (fm_name fm) \<longrightarrow> newTitle p f = fm_name fm)) \<and>
   (\<not> truthy p \<longrightarrow> (\<forall>fm. f = Some fm \<and> \<not> truthy (fm_name fm) \<longrightarrow>
      newTitle p f = ''New Conversation''))"
  by (cases p) (auto simp: newTitle_def truthy_def)

text \<open>
  C5. A send that passes its precondition leaves an active session with messages.
  When the active session had no messages before (or there was none and a new one
  was made), its title becomes \<open>newTitle\<close> of the trimmed prompt and the file
  metadata: the first 30 characters of the trimmed prompt when that is not empty,
  else the name of the attached file, else (the name is empty) the placeholder
  \<open>New Conversation\<close>, which is also the title a session is created with. When
  the active session
  already had messages, its title and the active id are as before. The sessions
  with other ids are untouched. Since the session has messages after its first
  send, every later send on it is of the second kind.
\<close>

theorem sendMessage_title_policy:
  assumes "truthy (trim (currentPrompt st)) \<or> fileMetadata st \<noteq> None"
  shows "(priorMessages st = [] \<longrightarrow>
            map_option title (activeSession (sendMessage now api st)) =
              Some (newTitle (trim (currentPrompt st)) (fileMetadata st))) \<and>
         (truthy (trim (currentPrompt st)) \<longrightarrow>
            newTitle (trim (currentPrompt st)) (fileMetadata st) = take 30 (trim (currentPrompt st))) \<and>
         (\<not> truthy (trim (currentPrompt st)) \<longrightarrow>
            (\<forall>fm. fileMetadata st = Some fm \<and> truthy (fm_name fm) \<longrightarrow>
               newTitle (trim (currentPrompt st)) (fileMetadata st) = fm_name fm)) \<and>
         (\<not> truthy (trim (currentPrompt st)) \<longrightarrow>
            (\<forall>fm. fileMetadata st = Some fm \<and> \<not> truthy (fm_name fm) \<longrightarrow>
               newTitle (trim (currentPrompt st)) (fileMetadata st) = ''New Conversation'')) \<and>
         (\<forall>old. activeSession st = Some old \<and> messages old \<noteq> [] \<longrightarrow>
            map_option title (activeSession (sendMessage now api st)) = Some (title old) \<and>
            activeSessionId (sendMessage now api st) = activeSessionId st) \<and>
         map_option (\<lambda>s. messages s = []) (activeSession (sendMessage now api st)) = Some False \<and>
         (\<forall>s. activeSession (sendMessage now api st) = Some s \<longrightarrow>
            filter (\<lambda>t. session_id t \<noteq> session_id s) (chatSessions (sendMessage now api st)) =
              filter (\<lambda>t. session_id t \<noteq> session_id s) (chatSessions st))"
proof -
  let ?p = "trim (currentPrompt st)"
  let ?f = "fileMetadata st"
  let ?u = "\<lparr>msg_role = User, msg_text = ?p, fileInfo = ?f\<rparr>"
  let ?ph = "\<lparr>msg_role = Ai, msg_text = [], fileInfo = None\<rparr>"
  let ?final = "sendMessage now api st"
  from sendMessage_begin_started [OF assms, of now] obtain st1 cur
    where b: "sendMessage_begin now st = Started st1 cur ?p ?f"
      and a: "activeSession st1 = Some cur"
      and m: "messages cur = (priorMessages st @ [?u]) @ [?ph]"
      and t: "title cur =
             (case activeSession st of
                None \<Rightarrow> newTitle ?p ?f
              | Some old \<Rightarrow> if messages old = [] then newTitle ?p ?f else title old)"
      and i: "case activeSession st of None \<Rightarrow> True | Some old \<Rightarrow> session_id cur = session_id old"
      and o1: "filter (\<lambda>t. session_id t \<noteq> session_id cur) (chatSessions st1) =
             filter (\<lambda>t. session_id t \<noteq> session_id cur) (chatSessions st)"
    by auto
  from sendMessage_stream_any [OF a m, of api ?p ?f] b obtain reply
    where res: "activeSession ?final = Some (cur\<lparr>messages := (priorMessages st @ [?u]) @ [?ph\<lparr>msg_text := reply\<rparr>]\<rparr>)"
      and o2: "filter (\<lambda>t. session_id t \<noteq> session_id cur) (chatSessions ?final) =
           filter (\<lambda>t. session_id t \<noteq> session_id cur) (chatSessions st1)"
    by (auto simp: sendMessage_def)
  from res t have first: "priorMessages st = [] \<longrightarrow>
      map_option title (activeSession ?final) = Some (newTitle ?p ?f)"
    by (auto simp: priorMessages_def split: option.splits)
  have later: "\<forall>old. activeSession st = Some old \<and> messages old \<noteq> [] \<longrightarrow>
            map_option title (activeSession ?final) = Some (title old) \<and>
            activeSessionId ?final = activeSessionId st"
  proof (intro allI impI)
    fix old assume old: "activeSession st = Some old \<and> messages old \<noteq> []"
    with t res have "map_option title (activeSession ?final) = Some (title old)" by simp
    moreover from old i have "session_id cur = session_id old" by simp
    with activeSession_id [OF res] old activeSession_id [of st old]
    have "activeSessionId ?final = activeSessionId st" by simp
    ultimately show "map_option title (activeSession ?final) = Some (title old) \<and>
            activeSessionId ?final = activeSessionId st" by simp
  qed
  from res have nonempty: "map_option (\<lambda>s. messages s = []) (activeSession ?final) = Some False"
    by simp
  from res o1 o2 have others: "\<forall>s. activeSession ?final = Some s \<longrightarrow>
            filter (\<lambda>t. session_id t \<noteq> session_id s) (chatSessions ?final) =
              filter (\<lambda>t. session_id t \<noteq> session_id s) (chatSessions st)"
    by simp
  from first later nonempty others newTitle_cases [of ?p ?f] show ?thesis
    by blast
qed

theorem sendMessage_title_policy_witness:
  "truthy (trim (currentPrompt exampleState)) \<and>
   map_option title (activeSession (sendMessage exampleClock (\<lambda>r. CallFailed) exampleState)) = Some ''Hello'' \<and>
   map_option (\<lambda>s. messages s = []) (activeSession (sendMessage exampleClock (\<lambda>r. CallFailed) exampleState)) = Some False"
proof -
  have h: "truthy (trim (currentPrompt exampleState))"
    by (simp add: exampleState_fields trim_example truthy_def)
  then have "truthy (trim (currentPrompt exampleState)) \<or> fileMetadata exampleState \<noteq> None"
    by simp
  from sendMessage_title_policy [OF this, of exampleClock "\<lambda>r. CallFailed"] h show ?thesis
    by (auto simp: exampleState_fields trim_example)
qed

text \<open>
  C10. With file metadata of an earlier file in the signal, selecting a file over the
  size limit sets the error and clears the attached file but leaves the metadata.
  A send that follows reaches the network call; its user message carries that
  metadata, and the user turn of its request has the inline part of the earlier
  file in front of the text when the metadata has non-empty base64 content.
\<close>

theorem oversize_selection_keeps_fileMetadata:
  assumes "fileMetadata st = Some fm" and "file_size file > MAX_FILE_SIZE"
  shows "error (snd (handleFileChange (file # others) st)) =
           Some ''File is too large. Max size is 5MB.'' \<and>
         attachedFile (snd (handleFileChange (file # others) st)) = None \<and>
         fileMetadata (snd (handleFileChange (file # others) st)) = Some fm \<and>
         (\<exists>req. sentRequest now (snd (handleFileChange (file # others) st)) = Some req \<and>
            (\<forall>d. base64Content fm = Some d \<and> d \<noteq> [] \<longrightarrow>
               parts (last req) = [InlineData (fm_type fm) d, TextPart (trim (currentPrompt st))])) \<and>
         (\<exists>reply. map_option messages
                  (activeSession (sendMessage now api (snd (handleFileChange (file # others) st)))) =
            Some (priorMessages st @
              [\<lparr>msg_role = User, msg_text = trim (currentPrompt st), fileInfo = Some fm\<rparr>,
               \<lparr>msg_role = Ai, msg_text = reply, fileInfo = None\<rparr>]))"
proof -
  let ?st = "st\<lparr>error := Some ''File is too large. Max size is 5MB.'', attachedFile := None\<rparr>"
  let ?p = "trim (currentPrompt st)"
  let ?u = "\<lparr>msg_role = User, msg_text = ?p, fileInfo = Some fm\<rparr>"
  let ?ph = "\<lparr>msg_role = Ai, msg_text = [], fileInfo = None\<rparr>"
  from assms(2) have hfc: "snd (handleFileChange (file # others) st) = ?st"
    by (simp add: handleFileChange_oversize)
  have act: "activeSession ?st = activeSession st"
    by (rule activeSession_cong) simp_all
  then have prior: "priorMessages ?st = priorMessages st"
    by (simp add: priorMessages_def)
  from assms(1) have pre: "truthy (trim (currentPrompt ?st)) \<or> fileMetadata ?st \<noteq> None"
    by simp
  from sendMessage_begin_started [OF pre, of now] assms(1) prior obtain st1 cur
    where b: "sendMessage_begin now ?st = Started st1 cur ?p (Some fm)"
      and a: "activeSession st1 = Some cur"
      and m: "messages cur = (priorMessages st @ [?u]) @ [?ph]"
    by auto
  from b have req: "sentRequest now ?st = Some (requestContents (buildHistory (messages cur)) ?p (Some fm))"
    by (simp add: sentRequest_def)
  have inline: "\<forall>d. base64Content fm = Some d \<and> d \<noteq> [] \<longrightarrow>
      parts (last (requestContents (buildHistory (messages cur)) ?p (Some fm))) =
        [InlineData (fm_type fm) d, TextPart ?p]"
    by (simp add: requestContents_def truthy_def)
  from sendMessage_stream_any [OF a m, of api ?p "Some fm"] b obtain reply
    where "activeSession (sendMessage now api ?st) =
        Some (cur\<lparr>messages := (priorMessages st @ [?u]) @ [?ph\<lparr>msg_text := reply\<rparr>]\<rparr>)"
    by (auto simp: sendMessage_def)
  then have sent: "\<exists>reply. map_option messages (activeSession (sendMessage now api ?st)) =
            Some (priorMessages st @ [?u, \<lparr>msg_role = Ai, msg_text = reply, fileInfo = None\<rparr>])"
    by simp
  from assms(1) req inline sent show ?thesis
    unfolding hfc by simp
qed

theorem oversize_selection_keeps_fileMetadata_witness:
  "fileMetadata exampleAttached = Some exampleMeta \<and> file_size exampleBigFile > MAX_FILE_SIZE \<and>
   fileMetadata (snd (handleFileChange [exampleBigFile] exampleAttached)) = Some exampleMeta \<and>
   attachedFile (snd (handleFileChange [exampleBigFile] exampleAttached)) = None \<and>
   (\<exists>req. sentRequest exampleClock (snd (handleFileChange [exampleBigFile] exampleAttached)) = Some req \<and>
      parts (last req) = [InlineData ''text/plain'' ''aGVsbG8='', TextPart []]) \<and>
   (\<exists>reply. map_option messages
       (activeSession (sendMessage exampleClock (\<lambda>r. CallFailed)
          (snd (handleFileChange [exampleBigFile] exampleAttached)))) =
      Some [\<lparr>msg_role = User, msg_text = [], fileInfo = Some exampleMeta\<rparr>,
            \<lparr>msg_role = Ai, msg_text = reply, fileInfo = None\<rparr>])"
proof -
  have h1: "fileMetadata exampleAttached = Some exampleMeta"
    by (simp add: exampleAttached_def)
  have h2: "file_size exampleBigFile > MAX_FILE_SIZE"
    by (simp add: exampleBigFile_def MAX_FILE_SIZE_def)
  have p: "trim (currentPrompt exampleAttached) = []" "priorMessages exampleAttached = []"
    by (simp_all add: exampleAttached_def initialState_def trim_def priorMessages_def activeSession_def)
  have b: "base64Content exampleMeta = Some ''aGVsbG8=''" "fm_type exampleMeta = ''text/plain''"
    by (simp_all add: exampleMeta_def)
  from oversize_selection_keeps_fileMetadata [OF h1 h2, of "[]" exampleClock "\<lambda>r. CallFailed"] h1 h2
  show ?thesis
    by (simp add: p b)
qed

subsection \<open>The operations keep the active id valid\<close>

text \<open>
  The states in which the active id refers to a listed session or is none are closed
  under creating a session, selecting a listed session and sending; with the
  theorem on deleting, this is the store's invariant.
\<close>

lemma activeIdValid_initialState: "activeIdValid initialState"
  by (simp add: activeIdValid_def initialState_def)

lemma activeIdValid_startNewChat: "activeIdValid (startNewChat now st)"
  by (simp add: activeIdValid_def)

lemma activeIdValid_selectChat:
  "i \<in> session_id ` set (chatSessions st) \<Longrightarrow> activeIdValid (selectChat i st)"
  by (simp add: activeIdValid_def selectChat_def)

lemma activeSession_Some_valid: "activeSession st = Some s \<Longrightarrow> activeIdValid st"
proof -
  assume a: "activeSession st = Some s"
  then have "activeSessionId st = Some (session_id s)" by (rule activeSession_id)
  moreover from a have "s \<in> set (chatSessions st)"
    by (auto simp: activeSession_def find_Some_iff in_set_conv_nth split: option.splits if_splits)
  ultimately show ?thesis by (simp add: activeIdValid_def)
qed

lemma activeIdValid_sendMessage:
  "activeIdValid st \<Longrightarrow> activeIdValid (sendMessage now api st)"
proof (cases "truthy (trim (currentPrompt st)) \<or> fileMetadata st \<noteq> None")
  case True
  from sendMessage_begin_started [OF True, of now] obtain st1 cur
    where b: "sendMessage_begin now st = Started st1 cur (trim (currentPrompt st)) (fileMetadata st)"
      and a: "activeSession st1 = Some cur"
      and m: "messages cur = (priorMessages st @
             [\<lparr>msg_role = User, msg_text = trim (currentPrompt st), fileInfo = fileMetadata st\<rparr>]) @
              [\<lparr>msg_role = Ai, msg_text = [], fileInfo = None\<rparr>]"
    by auto
  from sendMessage_stream_any [OF a m, of api "trim (currentPrompt st)" "fileMetadata st"] b
  obtain s where "activeSession (sendMessage now api st) = Some s"
    by (auto simp: sendMessage_def)
  then show ?thesis by (rule activeSession_Some_valid)
next
  case False
  assume "activeIdValid st"
  with False show ?thesis
    by (simp add: sendMessage_def sendMessage_begin_def sendMessage_stream_def Let_def)
qed

section \<open>Properties of the markdown pipe\<close>

lemma transform_passes_parser_output:
  "trim s \<noteq> [] \<Longrightarrow> marked_parse s = Some rawHtml \<Longrightarrow>
   transform marked_parse (Some s) = TrustedHtml rawHtml"
  by (simp add: transform_def bypassSecurityTrustHtml_def)

text \<open>
  C4. The pipe does not neutralize markup: what the parser returns is wrapped as
  trusted, unchanged. With a parser that copies raw HTML of its input to its output,
  as the markdown parser does, an image tag with a script in its error handler
  comes out as it went in, marked as trusted.
\<close>

theorem transform_trusts_embedded_markup:
  "transform (\<lambda>s. Some s) (Some ''<img src=x onerror=alert(1)>'') =
     TrustedHtml ''<img src=x onerror=alert(1)>''"
  by (simp add: transform_def bypassSecurityTrustHtml_def trim_def is_space_def)

end
